theory Spec2Isabelle
  imports Main "HOL-Library.AList" "HOL-Library.Product_Lexorder"
begin

section \<open>JavaScript values that reach the route handlers\<close>

text \<open>
  Request fields (\<^verbatim>\<open>req.body.*\<close>, \<^verbatim>\<open>req.query.*\<close>) are untyped in the source. The
  handlers only apply \<^verbatim>\<open>||\<close>, \<^verbatim>\<open>String(...)\<close>, \<^verbatim>\<open>.trim()\<close>, \<^verbatim>\<open>.length\<close>,
  \<^verbatim>\<open>Number.parseInt(..., 10)\<close>, \<^verbatim>\<open>Math.min\<close> and \<^verbatim>\<open>Math.max\<close> to them.
  Numbers are modelled as exact integers, \<^verbatim>\<open>NaN\<close> or plus/minus \<^verbatim>\<open>Infinity\<close>; the
  rounding of finite doubles above \<open>2^53\<close>, fractional numbers, arrays and objects are
  outside the model, and \<open>JNum n\<close> stands for an integral number below \<open>10^21\<close> in
  magnitude, where \<^verbatim>\<open>String(n)\<close> is the plain decimal rendering.
  Strings are lists of 8-bit characters, one per code unit, so the
  white space of \<^verbatim>\<open>trim\<close> and \<^verbatim>\<open>parseInt\<close> is tab, line feed, vertical tab, form
  feed, carriage return, space and no-break space.
\<close>

datatype jsnum = Num int | NaN | PosInf | NegInf

text \<open>\<^verbatim>\<open>Number.isFinite\<close>.\<close>

fun jsIsFinite :: "jsnum \<Rightarrow> bool" where
  "jsIsFinite (Num _) = True"
| "jsIsFinite NaN = False"
| "jsIsFinite PosInf = False"
| "jsIsFinite NegInf = False"

text \<open>
  The least magnitude that rounds to \<^verbatim>\<open>Infinity\<close> as a double: half way between the
  largest finite double \<open>2^1024 - 2^971\<close> and \<open>2^1024\<close>.
\<close>

definition doubleOverflow :: nat where
  "doubleOverflow = 2 ^ 1024 - 2 ^ 970"

datatype jsval = JUndefined | JNull | JBool bool | JNum int | JStr string

fun truthy :: "jsval \<Rightarrow> bool" where
  "truthy JUndefined = False"
| "truthy JNull = False"
| "truthy (JBool b) = b"
| "truthy (JNum n) = (n \<noteq> 0)"
| "truthy (JStr s) = (s \<noteq> [])"

definition jsOr :: "jsval \<Rightarrow> jsval \<Rightarrow> jsval" where
  "jsOr a b = (if truthy a then a else b)"

definition digitChar :: "nat \<Rightarrow> char" where
  "digitChar d = char_of (48 + d)"

fun showNat :: "nat \<Rightarrow> string" where
  "showNat n = (if n < 10 then [digitChar n] else showNat (n div 10) @ [digitChar (n mod 10)])"

definition showInt :: "int \<Rightarrow> string" where
  "showInt i = (if i < 0 then CHR ''-'' # showNat (nat (- i)) else showNat (nat i))"

fun toStr :: "jsval \<Rightarrow> string" where
  "toStr JUndefined = ''undefined''"
| "toStr JNull = ''null''"
| "toStr (JBool b) = (if b then ''true'' else ''false'')"
| "toStr (JNum n) = showInt n"
| "toStr (JStr s) = s"

definition isWhiteSpace :: "char \<Rightarrow> bool" where
  "isWhiteSpace c = (of_char c \<in> {9, 10, 11, 12, 13, 32, 160 :: nat})"

definition trim :: "string \<Rightarrow> string" where
  "trim s = rev (dropWhile isWhiteSpace (rev (dropWhile isWhiteSpace s)))"

definition isDigit :: "char \<Rightarrow> bool" where
  "isDigit c = (48 \<le> (of_char c :: nat) \<and> (of_char c :: nat) \<le> 57)"

definition digitsVal :: "string \<Rightarrow> nat" where
  "digitsVal ds = foldl (\<lambda>a c. 10 * a + (of_char c - 48)) 0 ds"

text \<open>\<^verbatim>\<open>Number.parseInt(s, 10)\<close>: leading white space, an optional sign, then the
  longest run of decimal digits; \<^verbatim>\<open>NaN\<close> when that run is empty, and an infinity when
  the digits denote a number too large for a finite double.\<close>

definition parseInt10 :: "string \<Rightarrow> jsnum" where
  "parseInt10 s =
     (let t = dropWhile isWhiteSpace s;
          neg = (case t of [] \<Rightarrow> False | c # _ \<Rightarrow> c = CHR ''-'');
          r = (case t of [] \<Rightarrow> []
               | c # cs \<Rightarrow> if c = CHR ''-'' \<or> c = CHR ''+'' then cs else t);
          ds = takeWhile isDigit r
      in if ds = [] then NaN
         else if doubleOverflow \<le> digitsVal ds then (if neg then NegInf else PosInf)
         else Num (if neg then - int (digitsVal ds) else int (digitsVal ds)))"

fun jsMin :: "jsnum \<Rightarrow> jsnum \<Rightarrow> jsnum" where
  "jsMin NaN _ = NaN"
| "jsMin _ NaN = NaN"
| "jsMin NegInf _ = NegInf"
| "jsMin _ NegInf = NegInf"
| "jsMin PosInf b = b"
| "jsMin a PosInf = a"
| "jsMin (Num a) (Num b) = Num (min a b)"

fun jsMax :: "jsnum \<Rightarrow> jsnum \<Rightarrow> jsnum" where
  "jsMax NaN _ = NaN"
| "jsMax _ NaN = NaN"
| "jsMax PosInf _ = PosInf"
| "jsMax _ PosInf = PosInf"
| "jsMax NegInf b = b"
| "jsMax a NegInf = a"
| "jsMax (Num a) (Num b) = Num (max a b)"

section \<open>Data model (models/Post.js)\<close>

text \<open>
  Object ids are compared through their canonical string rendering; times are
  milliseconds since the epoch. Schema-level casting and validation done by the
  persistence library on save are not modelled: the authenticated identity is taken as
  issued by \<^verbatim>\<open>signToken\<close>, whose \<^verbatim>\<open>userId\<close> is a canonical object id and whose
  \<^verbatim>\<open>name\<close> already satisfies the user schema.
\<close>

type_synonym objectId = string
type_synonym timestamp = int

datatype status = Live | Expired

record identity =
  userId :: objectId
  name :: string

record comment =
  cUser :: identity
  cText :: string
  cCreatedAt :: timestamp

record post =
  title :: string
  topics :: "string list"
  body :: string
  createdAt :: timestamp
  expiresAt :: timestamp
  status :: status
  owner :: identity
  likesCount :: int
  dislikesCount :: int
  likedBy :: "objectId list"
  dislikedBy :: "objectId list"
  comments :: "comment list"

definition TOPICS :: "string list" where
  "TOPICS = [''Politics'', ''Health'', ''Sport'', ''Tech'']"

text \<open>The collection: documents keyed by \<^verbatim>\<open>_id\<close>, in natural order.\<close>

type_synonym store = "(objectId \<times> post) list"

definition findById :: "store \<Rightarrow> objectId \<Rightarrow> post option" where
  "findById s i = map_of s i"

section \<open>Status (routes/post.js, models/Post.js)\<close>

text \<open>\<^verbatim>\<open>Date.now()\<close> is the parameter \<open>now\<close>: one clock reading per request.\<close>

definition computeStatus :: "timestamp \<Rightarrow> timestamp \<Rightarrow> status" where
  "computeStatus now exp = (if now < exp then Live else Expired)"

text \<open>The \<^verbatim>\<open>pre("save")\<close> hook of the schema.\<close>

definition preSave :: "timestamp \<Rightarrow> post \<Rightarrow> post" where
  "preSave now p = p\<lparr>status := (if now < expiresAt p then Live else Expired)\<rparr>"

text \<open>\<^verbatim>\<open>post.save()\<close>: runs the hook on the document and writes it back under its id.\<close>

definition save :: "timestamp \<Rightarrow> objectId \<Rightarrow> post \<Rightarrow> store \<Rightarrow> post \<times> store" where
  "save now i p s = (let p' = preSave now p in (p', AList.update i p' s))"

definition refreshPostStatusIfNeeded ::
  "timestamp \<Rightarrow> objectId \<Rightarrow> post \<Rightarrow> store \<Rightarrow> status \<times> post \<times> store" where
  "refreshPostStatusIfNeeded now i p s =
     (let statusNow = computeStatus now (expiresAt p)
      in if status p \<noteq> statusNow
         then (let (p', s') = save now i (p\<lparr>status := statusNow\<rparr>) s in (statusNow, p', s'))
         else (statusNow, p, s))"

section \<open>Responses\<close>

text \<open>
  One constructor per \<^verbatim>\<open>res.status(...).json(...)\<close> of the handlers modelled here;
  \<open>httpStatus\<close> gives the status code sent.
\<close>

datatype voteKind = Like | Dislike

text \<open>
  The query the expired-history route hands to the store: filter on topic and persisted
  status, descending sort on \<^verbatim>\<open>expiresAt\<close>, then \<^verbatim>\<open>.skip(qSkip).limit(qLimit)\<close>.
  \<open>ExpiredPosts q\<close> is the 200 response carrying the store's answer to \<open>q\<close>.
\<close>

record findQuery =
  qTopic :: string
  qStatus :: status
  qSkip :: jsnum
  qLimit :: jsnum

datatype response =
    InvalidId
  | PostNotFound
  | SelfVoteError voteKind
  | ExpiredError
  | DuplicateVoteError voteKind
  | Voted voteKind int int
  | CommentValidationError
  | CommentAdded nat comment
  | TitleInvalid
  | BodyInvalid
  | TopicsInvalid
  | ExpiresInMinutesInvalid
  | InvalidExpiration
  | PostCreated post
  | TopicInvalid
  | NoPostsFound
  | PostFound post
  | ExpiredPosts findQuery

fun httpStatus :: "response \<Rightarrow> nat" where
  "httpStatus InvalidId = 400"
| "httpStatus PostNotFound = 404"
| "httpStatus (SelfVoteError _) = 403"
| "httpStatus ExpiredError = 403"
| "httpStatus (DuplicateVoteError _) = 409"
| "httpStatus (Voted _ _ _) = 200"
| "httpStatus CommentValidationError = 400"
| "httpStatus (CommentAdded _ _) = 201"
| "httpStatus TitleInvalid = 400"
| "httpStatus BodyInvalid = 400"
| "httpStatus TopicsInvalid = 400"
| "httpStatus ExpiresInMinutesInvalid = 400"
| "httpStatus InvalidExpiration = 400"
| "httpStatus (PostCreated _) = 201"
| "httpStatus TopicInvalid = 400"
| "httpStatus NoPostsFound = 404"
| "httpStatus (PostFound _) = 200"
| "httpStatus (ExpiredPosts _) = 200"

section \<open>Voting (routes/post.js)\<close>

text \<open>
  \<^verbatim>\<open>mongoose.isValidObjectId\<close> is library code: it is the parameter \<open>valid\<close>.
  \<^verbatim>\<open>arr.some((x) => x.equals(u))\<close> is \<open>list_ex\<close>, \<^verbatim>\<open>arr.filter((x) => !x.equals(u))\<close>
  is \<open>filter\<close>, \<^verbatim>\<open>arr.push(u)\<close> appends.
\<close>

definition like ::
  "(string \<Rightarrow> bool) \<Rightarrow> timestamp \<Rightarrow> identity \<Rightarrow> string \<Rightarrow> store \<Rightarrow> response \<times> store" where
  "like valid now usr i s =
     (if \<not> valid i then (InvalidId, s)
      else case findById s i of
        None \<Rightarrow> (PostNotFound, s)
      | Some p0 \<Rightarrow>
          if userId (owner p0) = userId usr then (SelfVoteError Like, s)
          else
            let (statusNow, p1, s1) = refreshPostStatusIfNeeded now i p0 s
            in if statusNow \<noteq> Live then (ExpiredError, s1)
               else
                 let u = userId usr;
                     alreadyLiked = list_ex (\<lambda>x. x = u) (likedBy p1)
                 in if alreadyLiked then (DuplicateVoteError Like, s1)
                    else
                      let wasDisliked = list_ex (\<lambda>x. x = u) (dislikedBy p1);
                          p2 = (if wasDisliked
                                then p1\<lparr>dislikedBy := filter (\<lambda>x. \<not> x = u) (dislikedBy p1),
                                        dislikesCount := max 0 (dislikesCount p1 - 1)\<rparr>
                                else p1);
                          p3 = p2\<lparr>likedBy := likedBy p2 @ [u], likesCount := likesCount p2 + 1\<rparr>;
                          (p4, s4) = save now i p3 s1
                      in (Voted Like (likesCount p4) (dislikesCount p4), s4))"

definition dislike ::
  "(string \<Rightarrow> bool) \<Rightarrow> timestamp \<Rightarrow> identity \<Rightarrow> string \<Rightarrow> store \<Rightarrow> response \<times> store" where
  "dislike valid now usr i s =
     (if \<not> valid i then (InvalidId, s)
      else case findById s i of
        None \<Rightarrow> (PostNotFound, s)
      | Some p0 \<Rightarrow>
          if userId (owner p0) = userId usr then (SelfVoteError Dislike, s)
          else
            let (statusNow, p1, s1) = refreshPostStatusIfNeeded now i p0 s
            in if statusNow \<noteq> Live then (ExpiredError, s1)
               else
                 let u = userId usr;
                     alreadyDisliked = list_ex (\<lambda>x. x = u) (dislikedBy p1)
                 in if alreadyDisliked then (DuplicateVoteError Dislike, s1)
                    else
                      let wasLiked = list_ex (\<lambda>x. x = u) (likedBy p1);
                          p2 = (if wasLiked
                                then p1\<lparr>likedBy := filter (\<lambda>x. \<not> x = u) (likedBy p1),
                                        likesCount := max 0 (likesCount p1 - 1)\<rparr>
                                else p1);
                          p3 = p2\<lparr>dislikedBy := dislikedBy p2 @ [u],
                                  dislikesCount := dislikesCount p2 + 1\<rparr>;
                          (p4, s4) = save now i p3 s1
                      in (Voted Dislike (likesCount p4) (dislikesCount p4), s4))"

section \<open>Commenting (routes/post.js)\<close>

definition addComment ::
  "(string \<Rightarrow> bool) \<Rightarrow> timestamp \<Rightarrow> identity \<Rightarrow> string \<Rightarrow> jsval \<Rightarrow> store \<Rightarrow> response \<times> store" where
  "addComment valid now usr i textRaw s =
     (if \<not> valid i then (InvalidId, s)
      else
        let txt = trim (toStr (jsOr textRaw (JStr [])))
        in if length txt < 1 \<or> length txt > 500 then (CommentValidationError, s)
           else case findById s i of
             None \<Rightarrow> (PostNotFound, s)
           | Some p0 \<Rightarrow>
               let (statusNow, p1, s1) = refreshPostStatusIfNeeded now i p0 s
               in if statusNow \<noteq> Live then (ExpiredError, s1)
                  else
                    let c = \<lparr>cUser = \<lparr>userId = userId usr, name = name usr\<rparr>,
                             cText = txt, cCreatedAt = now\<rparr>;
                        p2 = p1\<lparr>comments := comments p1 @ [c]\<rparr>;
                        (p3, s3) = save now i p2 s1
                    in (CommentAdded (length (comments p3)) (last (comments p3)), s3))"

section \<open>Creating a post (routes/post.js)\<close>

text \<open>
  The request body. \<open>bTopics\<close> is \<open>None\<close> when the field is not an array; an element
  that is not a string fails \<^verbatim>\<open>TOPICS.includes\<close> like any string outside the list.
  \<^verbatim>\<open>new Date(expiresAtRaw)\<close> is library code: the parameter \<open>parseDate\<close> gives its
  \<^verbatim>\<open>getTime()\<close>, \<open>None\<close> for an invalid date (whose time value is \<^verbatim>\<open>NaN\<close>). \<open>newId\<close>
  is the id the store assigns.
\<close>

record reqBody =
  bTitle :: jsval
  bBody :: jsval
  bTopics :: "string list option"
  bExpiresInMinutes :: jsval
  bExpiresAt :: jsval

text \<open>
  \<^verbatim>\<open>toInt\<close> keeps the parsed number when \<^verbatim>\<open>Number.isFinite\<close> holds of it and returns
  the fallback for \<^verbatim>\<open>NaN\<close> and for both infinities.
\<close>

definition toInt :: "jsval \<Rightarrow> int \<Rightarrow> int" where
  "toInt v fallback =
     (case parseInt10 (toStr v) of
        Num n \<Rightarrow> n
      | NaN \<Rightarrow> fallback
      | PosInf \<Rightarrow> fallback
      | NegInf \<Rightarrow> fallback)"

definition isValidTopicList :: "string list option \<Rightarrow> bool" where
  "isValidTopicList t =
     (case t of None \<Rightarrow> False
      | Some ts \<Rightarrow> length ts > 0 \<and> list_all (\<lambda>x. List.member TOPICS x) ts)"

definition createPost ::
  "(jsval \<Rightarrow> timestamp option) \<Rightarrow> objectId \<Rightarrow> timestamp \<Rightarrow> identity \<Rightarrow> reqBody
     \<Rightarrow> store
     \<Rightarrow> response \<times> store" where
  "createPost parseDate newId now usr b s =
     (let ttl = trim (toStr (jsOr (bTitle b) (JStr [])));
          bdy = trim (toStr (jsOr (bBody b) (JStr [])));
          tps = bTopics b;
          expiresInMinutes = bExpiresInMinutes b;
          expiresAtRaw = bExpiresAt b
      in if length ttl < 6 \<or> length ttl > 120 then (TitleInvalid, s)
         else if length bdy < 1 \<or> length bdy > 2000 then (BodyInvalid, s)
         else if \<not> isValidTopicList tps then (TopicsInvalid, s)
         else
           case (if truthy expiresAtRaw then Inr (parseDate expiresAtRaw)
                 else let mins = toInt expiresInMinutes 60
                      in if mins < 1 \<or> mins > 60 * 24 * 7 then Inl ExpiresInMinutesInvalid
                         else Inr (Some (now + mins * 60 * 1000))) of
             Inl e \<Rightarrow> (e, s)
           | Inr None \<Rightarrow> (InvalidExpiration, s)
           | Inr (Some expAt) \<Rightarrow>
               let p = \<lparr>title = ttl,
                        topics = (case tps of None \<Rightarrow> [] | Some ts \<Rightarrow> ts),
                        body = bdy, createdAt = now, expiresAt = expAt,
                        status = computeStatus now expAt,
                        owner = \<lparr>userId = userId usr, name = name usr\<rparr>,
                        likesCount = 0, dislikesCount = 0,
                        likedBy = [], dislikedBy = [], comments = []\<rparr>;
                   (p', s') = save now newId p s
               in (PostCreated p', s'))"

section \<open>Topic queries (routes/topic.js)\<close>

text \<open>
  \<^verbatim>\<open>Post.findOne({topics: topic}).sort({likesCount: -1, dislikesCount: -1, createdAt: -1})\<close>:
  the documents whose \<^verbatim>\<open>topics\<close> array holds the topic, ordered by the three keys
  descending, first one returned.
\<close>

definition activity :: "post \<Rightarrow> int \<times> int \<times> int" where
  "activity p = (likesCount p, dislikesCount p, createdAt p)"

definition findOneSortedDesc ::
  "(post \<Rightarrow> bool) \<Rightarrow> (post \<Rightarrow> 'k::linorder) \<Rightarrow> store \<Rightarrow> post option" where
  "findOneSortedDesc f key s =
     (case rev (sort_key key (filter f (map snd s))) of [] \<Rightarrow> None | p # _ \<Rightarrow> Some p)"

definition mostActive :: "string \<Rightarrow> store \<Rightarrow> response" where
  "mostActive topic s =
     (if \<not> List.member TOPICS topic then TopicInvalid
      else case findOneSortedDesc (\<lambda>p. List.member (topics p) topic) activity s of
             None \<Rightarrow> NoPostsFound
           | Some p \<Rightarrow> PostFound p)"

definition expiredLimit :: "jsval \<Rightarrow> jsnum" where
  "expiredLimit q = jsMin (parseInt10 (toStr (jsOr q (JStr ''20'')))) (Num 50)"

definition expiredSkip :: "jsval \<Rightarrow> jsnum" where
  "expiredSkip q = jsMax (parseInt10 (toStr (jsOr q (JStr ''0'')))) (Num 0)"

definition expiredHistory :: "string \<Rightarrow> jsval \<Rightarrow> jsval \<Rightarrow> response" where
  "expiredHistory topic qlimit qskip =
     (if \<not> List.member TOPICS topic then TopicInvalid
      else ExpiredPosts \<lparr>qTopic = topic, qStatus = Expired,
                         qSkip = expiredSkip qskip, qLimit = expiredLimit qlimit\<rparr>)"

section \<open>Sequences of vote requests\<close>

record voteRequest =
  rKind :: voteKind
  rNow :: timestamp
  rUser :: identity
  rId :: string

definition applyVote :: "(string \<Rightarrow> bool) \<Rightarrow> voteRequest \<Rightarrow> store \<Rightarrow> response \<times> store" where
  "applyVote valid r s =
     (case rKind r of
        Like \<Rightarrow> like valid (rNow r) (rUser r) (rId r) s
      | Dislike \<Rightarrow> dislike valid (rNow r) (rUser r) (rId r) s)"

fun runVotes :: "(string \<Rightarrow> bool) \<Rightarrow> voteRequest list \<Rightarrow> store \<Rightarrow> store" where
  "runVotes valid [] s = s"
| "runVotes valid (r # rs) s = runVotes valid rs (snd (applyVote valid r s))"

text \<open>
  The invariants I1 to I3 of one post. The two arrays stand for sets of user ids, so
  the number of elements is the number of distinct ids held.
\<close>

definition voteInv :: "post \<Rightarrow> bool" where
  "voteInv p =
     (likesCount p = int (card (set (likedBy p))) \<and>
      dislikesCount p = int (card (set (dislikedBy p))) \<and>
      set (likedBy p) \<inter> set (dislikedBy p) = {} \<and>
      \<not> list_ex (\<lambda>x. x = userId (owner p)) (likedBy p) \<and>
      \<not> list_ex (\<lambda>x. x = userId (owner p)) (dislikedBy p))"

definition storeInv :: "store \<Rightarrow> bool" where
  "storeInv s = list_all (\<lambda>kp. voteInv (snd kp)) s"

text \<open>
  Arrays without repeated ids: on these the number of elements is the array length.
\<close>

definition distinctVotes :: "post \<Rightarrow> bool" where
  "distinctVotes p = (distinct (likedBy p) \<and> distinct (dislikedBy p))"

definition storeDistinct :: "store \<Rightarrow> bool" where
  "storeDistinct s = list_all (\<lambda>kp. distinctVotes (snd kp)) s"

text \<open>
  The order of the most-active ranking as the specification words it: more likes first,
  then more dislikes, then the later creation time. \<open>activityLe p q\<close> says that \<open>q\<close>
  ranks at least as high as \<open>p\<close>.
\<close>

definition activityLe :: "post \<Rightarrow> post \<Rightarrow> bool" where
  "activityLe p q =
     (likesCount p < likesCount q \<or>
      (likesCount p = likesCount q \<and>
       (dislikesCount p < dislikesCount q \<or>
        (dislikesCount p = dislikesCount q \<and> createdAt p \<le> createdAt q))))"

section \<open>Vote kinds as a parameter\<close>

text \<open>The list and the counter a vote kind writes to, and the other kind.\<close>

fun votesOf :: "voteKind \<Rightarrow> post \<Rightarrow> objectId list" where
  "votesOf Like p = likedBy p"
| "votesOf Dislike p = dislikedBy p"

fun countOf :: "voteKind \<Rightarrow> post \<Rightarrow> int" where
  "countOf Like p = likesCount p"
| "countOf Dislike p = dislikesCount p"

fun opposite :: "voteKind \<Rightarrow> voteKind" where
  "opposite Like = Dislike"
| "opposite Dislike = Like"

section \<open>A small collection for concrete instances\<close>

text \<open>Here an id counts as well-formed when it has 24 characters.\<close>

definition demoValid :: "string \<Rightarrow> bool" where
  "demoValid i = (length i = 24)"

definition alice :: identity where
  "alice = \<lparr>userId = ''0000000000000000000000a1'', name = ''Alice''\<rparr>"

definition bob :: identity where
  "bob = \<lparr>userId = ''0000000000000000000000b2'', name = ''Bob''\<rparr>"

definition carol :: identity where
  "carol = \<lparr>userId = ''0000000000000000000000c3'', name = ''Carol''\<rparr>"

definition demoId :: objectId where
  "demoId = ''5f0000000000000000000001''"

definition demoPost :: post where
  "demoPost = \<lparr>title = ''Hello world'', topics = [''Tech''], body = ''First post'',
               createdAt = 1000, expiresAt = 5000, status = Live, owner = alice,
               likesCount = 1, dislikesCount = 0,
               likedBy = [userId bob], dislikedBy = [], comments = []\<rparr>"

definition demoStore :: store where
  "demoStore = [(demoId, demoPost)]"

definition demoVotes :: "voteRequest list" where
  "demoVotes =
     [\<lparr>rKind = Like, rNow = 2000, rUser = carol, rId = demoId\<rparr>,
      \<lparr>rKind = Like, rNow = 2100, rUser = bob, rId = demoId\<rparr>,
      \<lparr>rKind = Dislike, rNow = 2200, rUser = bob, rId = demoId\<rparr>,
      \<lparr>rKind = Dislike, rNow = 2300, rUser = alice, rId = demoId\<rparr>,
      \<lparr>rKind = Like, rNow = 2400, rUser = carol, rId = ''nowhere''\<rparr>,
      \<lparr>rKind = Dislike, rNow = 6000, rUser = carol, rId = demoId\<rparr>]"

definition demoComment :: comment where
  "demoComment = \<lparr>cUser = alice, cText = ''my own post'', cCreatedAt = 2000\<rparr>"

text \<open>Three posts tagged Tech that differ in counters, creation time and status.\<close>

definition rankedPost :: "int \<Rightarrow> int \<Rightarrow> timestamp \<Rightarrow> status \<Rightarrow> post" where
  "rankedPost l d t st =
     demoPost\<lparr>likesCount := l, dislikesCount := d, createdAt := t, status := st\<rparr>"

definition rankedStore :: store where
  "rankedStore =
     [(''5f0000000000000000000011'', rankedPost 5 1 100 Live),
      (''5f0000000000000000000012'', rankedPost 5 2 200 Expired),
      (''5f0000000000000000000013'', rankedPost 3 0 300 Live)]"

text \<open>
  A creation request without expiry fields, a stand-in for the date parser, and a digit
  string (1 followed by 309 zeros) that denotes a number beyond every finite double.
\<close>

definition demoBody :: reqBody where
  "demoBody = \<lparr>bTitle = JStr '' Weekend plans '', bBody = JStr ''Anyone up for a hike?'',
               bTopics = Some [''Sport'', ''Health''],
               bExpiresInMinutes = JUndefined, bExpiresAt = JUndefined\<rparr>"

definition demoParseDate :: "jsval \<Rightarrow> timestamp option" where
  "demoParseDate v = (case v of JNum n \<Rightarrow> Some n | _ \<Rightarrow> None)"

definition hugeDigits :: string where
  "hugeDigits = CHR ''1'' # replicate 309 (CHR ''0'')"

lemmas demo_defs = demoValid_def alice_def bob_def carol_def demoId_def demoPost_def demoStore_def

section \<open>Supporting lemmas\<close>

lemma refresh_eq:
  "refreshPostStatusIfNeeded now i p s =
     (computeStatus now (expiresAt p),
      p\<lparr>status := computeStatus now (expiresAt p)\<rparr>,
      if status p \<noteq> computeStatus now (expiresAt p)
      then AList.update i (p\<lparr>status := computeStatus now (expiresAt p)\<rparr>) s else s)"
  by (simp add: refreshPostStatusIfNeeded_def save_def preSave_def computeStatus_def Let_def)

lemma list_all_update:
  "list_all P al \<Longrightarrow> P (k, v) \<Longrightarrow> list_all P (AList.update k v al)"
  by (induction al) auto

lemma list_all_find:
  "list_all (\<lambda>kp. P (snd kp)) s \<Longrightarrow> findById s i = Some p \<Longrightarrow> P p"
  unfolding findById_def by (auto simp: list_all_iff dest!: map_of_SomeD)

lemma voteInv_status [simp]: "voteInv (p\<lparr>status := x\<rparr>) = voteInv p"
  by (simp add: voteInv_def)

lemma voteInv_preSave [simp]: "voteInv (preSave now p) = voteInv p"
  by (simp add: preSave_def)

lemma card_remove:
  assumes a: "u \<in> set xs"
  shows "int (card (set (filter (\<lambda>x. x \<noteq> u) xs))) = max 0 (int (card (set xs)) - 1)"
proof -
  have "set (filter (\<lambda>x. x \<noteq> u) xs) = set xs - {u}" by auto
  moreover have "card (set xs - {u}) = card (set xs) - 1" using a by simp
  moreover have "0 < card (set xs)" using a by (auto simp: card_gt_0_iff)
  ultimately show ?thesis by simp
qed

lemma voteInv_like_step:
  assumes "voteInv p" "u \<noteq> userId (owner p)" "u \<notin> set (likedBy p)"
  shows "voteInv ((if list_ex (\<lambda>x. x = u) (dislikedBy p)
                   then p\<lparr>dislikedBy := filter (\<lambda>x. x \<noteq> u) (dislikedBy p),
                           dislikesCount := max 0 (dislikesCount p - 1)\<rparr>
                   else p)
                  \<lparr>likedBy := likedBy p @ [u], likesCount := likesCount p + 1\<rparr>)"
  using assms card_remove[of u "dislikedBy p"]
  by (auto simp: voteInv_def list_ex_iff)

lemma voteInv_dislike_step:
  assumes "voteInv p" "u \<noteq> userId (owner p)" "u \<notin> set (dislikedBy p)"
  shows "voteInv ((if list_ex (\<lambda>x. x = u) (likedBy p)
                   then p\<lparr>likedBy := filter (\<lambda>x. x \<noteq> u) (likedBy p),
                           likesCount := max 0 (likesCount p - 1)\<rparr>
                   else p)
                  \<lparr>dislikedBy := dislikedBy p @ [u], dislikesCount := dislikesCount p + 1\<rparr>)"
  using assms card_remove[of u "likedBy p"]
  by (auto simp: voteInv_def list_ex_iff)

lemma findById_update [simp]: "findById (AList.update i p s) i = Some p"
  by (simp add: findById_def update_conv')

lemma like_list_all:
  assumes st: "\<And>p x. P (p\<lparr>status := x\<rparr>) = P p"
    and step: "\<And>p u. P p \<Longrightarrow> u \<noteq> userId (owner p) \<Longrightarrow> u \<notin> set (likedBy p) \<Longrightarrow>
        P ((if list_ex (\<lambda>x. x = u) (dislikedBy p)
            then p\<lparr>dislikedBy := filter (\<lambda>x. x \<noteq> u) (dislikedBy p),
                    dislikesCount := max 0 (dislikesCount p - 1)\<rparr>
            else p)\<lparr>likedBy := likedBy p @ [u], likesCount := likesCount p + 1\<rparr>)"
    and inv: "list_all (\<lambda>kp. P (snd kp)) s"
  shows "list_all (\<lambda>kp. P (snd kp)) (snd (like valid now usr i s))"
proof (cases "valid i")
  case False
  with inv show ?thesis by (simp add: like_def)
next
  case True
  show ?thesis
  proof (cases "findById s i")
    case None
    with True inv show ?thesis by (simp add: like_def)
  next
    case (Some p)
    let ?p1 = "p\<lparr>status := computeStatus now (expiresAt p)\<rparr>"
    let ?s1 = "if status p \<noteq> computeStatus now (expiresAt p) then AList.update i ?p1 s else s"
    have vp: "P p" using inv Some by (rule list_all_find)
    have s1: "list_all (\<lambda>kp. P (snd kp)) ?s1"
      using inv vp by (simp add: list_all_update st)
    show ?thesis
    proof (cases "userId (owner p) = userId usr \<or> computeStatus now (expiresAt p) \<noteq> Live
                   \<or> userId usr \<in> set (likedBy p)")
      case True
      with \<open>valid i\<close> Some inv s1 show ?thesis
        by (auto simp: like_def refresh_eq Let_def list_ex_iff)
    next
      case False
      let ?p3 = "(if list_ex (\<lambda>x. x = userId usr) (dislikedBy ?p1)
                   then ?p1\<lparr>dislikedBy := filter (\<lambda>x. x \<noteq> userId usr) (dislikedBy ?p1),
                           dislikesCount := max 0 (dislikesCount ?p1 - 1)\<rparr>
                   else ?p1)
                  \<lparr>likedBy := likedBy ?p1 @ [userId usr], likesCount := likesCount ?p1 + 1\<rparr>"
      have "P ?p1" using vp by (simp add: st)
      then have "P ?p3" using False by (intro step) auto
      then have "P (preSave now ?p3)" by (simp add: preSave_def st)
      then have "list_all (\<lambda>kp. P (snd kp)) (AList.update i (preSave now ?p3) ?s1)"
        using s1 by (intro list_all_update) simp_all
      moreover have "snd (like valid now usr i s) = AList.update i (preSave now ?p3) ?s1"
        using False \<open>valid i\<close> Some
        by (simp add: like_def refresh_eq save_def Let_def list_ex_iff)
      ultimately show ?thesis by simp
    qed
  qed
qed

lemma dislike_list_all:
  assumes st: "\<And>p x. P (p\<lparr>status := x\<rparr>) = P p"
    and step: "\<And>p u. P p \<Longrightarrow> u \<noteq> userId (owner p) \<Longrightarrow> u \<notin> set (dislikedBy p) \<Longrightarrow>
        P ((if list_ex (\<lambda>x. x = u) (likedBy p)
            then p\<lparr>likedBy := filter (\<lambda>x. x \<noteq> u) (likedBy p),
                    likesCount := max 0 (likesCount p - 1)\<rparr>
            else p)\<lparr>dislikedBy := dislikedBy p @ [u], dislikesCount := dislikesCount p + 1\<rparr>)"
    and inv: "list_all (\<lambda>kp. P (snd kp)) s"
  shows "list_all (\<lambda>kp. P (snd kp)) (snd (dislike valid now usr i s))"
proof (cases "valid i")
  case False
  with inv show ?thesis by (simp add: dislike_def)
next
  case True
  show ?thesis
  proof (cases "findById s i")
    case None
    with True inv show ?thesis by (simp add: dislike_def)
  next
    case (Some p)
    let ?p1 = "p\<lparr>status := computeStatus now (expiresAt p)\<rparr>"
    let ?s1 = "if status p \<noteq> computeStatus now (expiresAt p) then AList.update i ?p1 s else s"
    have vp: "P p" using inv Some by (rule list_all_find)
    have s1: "list_all (\<lambda>kp. P (snd kp)) ?s1"
      using inv vp by (simp add: list_all_update st)
    show ?thesis
    proof (cases "userId (owner p) = userId usr \<or> computeStatus now (expiresAt p) \<noteq> Live
                   \<or> userId usr \<in> set (dislikedBy p)")
      case True
      with \<open>valid i\<close> Some inv s1 show ?thesis
        by (auto simp: dislike_def refresh_eq Let_def list_ex_iff)
    next
      case False
      let ?p3 = "(if list_ex (\<lambda>x. x = userId usr) (likedBy ?p1)
                   then ?p1\<lparr>likedBy := filter (\<lambda>x. x \<noteq> userId usr) (likedBy ?p1),
                           likesCount := max 0 (likesCount ?p1 - 1)\<rparr>
                   else ?p1)
                  \<lparr>dislikedBy := dislikedBy ?p1 @ [userId usr],
                    dislikesCount := dislikesCount ?p1 + 1\<rparr>"
      have "P ?p1" using vp by (simp add: st)
      then have "P ?p3" using False by (intro step) auto
      then have "P (preSave now ?p3)" by (simp add: preSave_def st)
      then have "list_all (\<lambda>kp. P (snd kp)) (AList.update i (preSave now ?p3) ?s1)"
        using s1 by (intro list_all_update) simp_all
      moreover have "snd (dislike valid now usr i s) = AList.update i (preSave now ?p3) ?s1"
        using False \<open>valid i\<close> Some
        by (simp add: dislike_def refresh_eq save_def Let_def list_ex_iff)
      ultimately show ?thesis by simp
    qed
  qed
qed

lemma applyVote_storeInv: "storeInv s \<Longrightarrow> storeInv (snd (applyVote valid r s))"
  unfolding storeInv_def applyVote_def
  by (cases "rKind r")
    (auto intro!: like_list_all dislike_list_all voteInv_like_step voteInv_dislike_step)

text \<open>
  Arrays without repeated ids stay so under any sequence of vote requests, and on such
  arrays the counters of a post satisfying the invariants are the array lengths. Every
  post starts with two empty arrays, so this covers every post the handlers can produce.
\<close>

lemma distinctVotes_status: "distinctVotes (p\<lparr>status := x\<rparr>) = distinctVotes p"
  by (simp add: distinctVotes_def)

lemma applyVote_storeDistinct:
  "storeDistinct s \<Longrightarrow> storeDistinct (snd (applyVote valid r s))"
  unfolding storeDistinct_def applyVote_def
  by (cases "rKind r")
    (auto intro!: like_list_all dislike_list_all simp: distinctVotes_def)

lemma runVotes_storeDistinct:
  "storeDistinct s \<Longrightarrow> storeDistinct (runVotes valid rs s)"
  by (induction rs arbitrary: s) (simp_all add: applyVote_storeDistinct)

lemma counts_are_lengths:
  "voteInv p \<Longrightarrow> distinctVotes p \<Longrightarrow>
   likesCount p = int (length (likedBy p)) \<and> dislikesCount p = int (length (dislikedBy p))"
  by (simp add: voteInv_def distinctVotes_def distinct_card)

text \<open>The order of the most-active query, and what the sorted lookup returns.\<close>

lemma activityLe_iff: "activityLe p q = (activity p \<le> activity q)"
  by (auto simp: activityLe_def activity_def less_eq_prod_def)

lemma sorted_last_max:
  "sorted xs \<Longrightarrow> x \<in> set xs \<Longrightarrow> x \<le> last xs"
  by (induction xs) auto

lemma findOne_None:
  "findOneSortedDesc f key s = None \<Longrightarrow> filter f (map snd s) = []"
  apply (simp add: findOneSortedDesc_def split: list.splits)
  by (metis set_empty set_sort)

lemma findOne_Some:
  assumes "findOneSortedDesc f key s = Some r"
  shows "r \<in> set (map snd s) \<and> f r \<and> (\<forall>p \<in> set (map snd s). f p \<longrightarrow> key p \<le> key r)"
proof -
  let ?c = "filter f (map snd s)"
  let ?xs = "sort_key key ?c"
  from assms have ne: "?xs \<noteq> []" and r: "r = last ?xs"
    by (auto simp: findOneSortedDesc_def hd_rev split: list.splits)
  have "r \<in> set ?xs" unfolding r using ne by (rule last_in_set)
  then have rc: "r \<in> set ?c" by simp
  have srt: "sorted (map key ?xs)" by (rule sorted_sort_key)
  have "key p \<le> key r" if "p \<in> set ?c" for p
  proof -
    from that have "key p \<in> set (map key ?xs)" by simp
    with srt have "key p \<le> last (map key ?xs)" by (rule sorted_last_max)
    also have "last (map key ?xs) = key r" using ne r by (simp add: last_map)
    finally show ?thesis .
  qed
  with rc show ?thesis by auto
qed

text \<open>Parsing a digit string that overflows the doubles.\<close>

lemma foldl_zeros:
  "foldl (\<lambda>a c. 10 * a + (of_char c - 48)) (a::nat) (replicate n (CHR ''0'')) = a * 10 ^ n"
  by (induction n arbitrary: a) simp_all

lemma no_overflow_below: "n < 10 ^ 21 \<Longrightarrow> (doubleOverflow \<le> n) = False"
proof -
  assume "n < 10 ^ 21"
  moreover have "(10::nat) ^ 21 \<le> doubleOverflow" by (simp add: doubleOverflow_def)
  ultimately show ?thesis by simp
qed

lemma doubleOverflow_pos: "0 < doubleOverflow"
  by (simp add: doubleOverflow_def)

lemma doubleOverflow_le: "doubleOverflow \<le> 10 ^ 309"
  by (simp add: doubleOverflow_def)

lemma parseInt10_hugeDigits: "parseInt10 hugeDigits = PosInf"
proof -
  let ?z = "replicate 309 (CHR ''0'')"
  have ws: "dropWhile isWhiteSpace (CHR ''1'' # ?z) = CHR ''1'' # ?z"
    by (simp add: isWhiteSpace_def)
  have tw: "takeWhile isDigit (CHR ''1'' # ?z) = CHR ''1'' # ?z"
    by (simp add: isDigit_def takeWhile_eq_all_conv)
  have dv: "digitsVal (CHR ''1'' # ?z) = 10 ^ 309"
    by (simp add: digitsVal_def foldl_zeros)
  have "parseInt10 (CHR ''1'' # ?z) = PosInf"
    using doubleOverflow_le
    by (simp add: parseInt10_def Let_def ws tw dv del: takeWhile.simps dropWhile.simps)
  then show ?thesis by (simp only: hugeDigits_def)
qed

section \<open>Status resolver\<close>

text \<open>
  Claim C6. The status resolver is a total function of the expiry time and the clock
  reading only: it yields Live exactly when the clock is strictly before the expiry time
  and Expired in every other case, so a post is Expired at the very instant of its expiry.
  The save hook and the refresh helper compute the same value.
\<close>

theorem computeStatus_boundary:
  "(computeStatus now e = Live) = (now < e) \<and>
   (computeStatus now e = Expired) = (\<not> now < e) \<and>
   computeStatus e e = Expired \<and>
   status (preSave now p) = computeStatus now (expiresAt p) \<and>
   fst (refreshPostStatusIfNeeded now i p s) = computeStatus now (expiresAt p)"
  by (simp add: computeStatus_def preSave_def refreshPostStatusIfNeeded_def save_def Let_def)

section \<open>Malformed ids\<close>

text \<open>
  Claim C10. A like, dislike or comment request whose post id is not a well-formed
  object id is answered with the invalid-id response (status 400) and the store is left
  as it was, whatever the store holds, whoever asks and whatever the comment text is:
  the id test comes before the lookup, the owner test, the status gate and the text
  validation.
\<close>

theorem invalid_id_first:
  assumes "\<not> valid i"
  shows "like valid now usr i s = (InvalidId, s) \<and>
         dislike valid now usr i s = (InvalidId, s) \<and>
         addComment valid now usr i textRaw s = (InvalidId, s) \<and>
         httpStatus InvalidId = 400"
  using assms by (simp add: like_def dislike_def addComment_def)

theorem invalid_id_first_witness:
  "\<not> demoValid ''not-an-id'' \<and>
   like demoValid 2000 bob ''not-an-id'' demoStore = (InvalidId, demoStore) \<and>
   dislike demoValid 2000 alice ''not-an-id'' demoStore = (InvalidId, demoStore) \<and>
   addComment demoValid 9000 carol ''not-an-id'' (JStr []) demoStore = (InvalidId, demoStore)"
proof -
  have h: "\<not> demoValid ''not-an-id''" by (simp add: demoValid_def)
  show ?thesis
    using h
      invalid_id_first [where valid = demoValid and i = "''not-an-id''" and now = 2000
        and usr = bob and s = demoStore]
      invalid_id_first [where valid = demoValid and i = "''not-an-id''" and now = 2000
        and usr = alice and s = demoStore]
      invalid_id_first [where valid = demoValid and i = "''not-an-id''" and now = 9000
        and usr = carol and s = demoStore and textRaw = "JStr []"]
    by simp
qed

section \<open>Order of the vote preconditions\<close>

text \<open>
  Claim C1, as stated, fails: the handlers test the owner before the status. On the
  expired post of the small collection its owner gets the self-vote response, not the
  expired response, for a like and for a dislike.
\<close>

theorem owner_vote_on_expired_counterexample:
  "demoValid demoId \<and> findById demoStore demoId = Some demoPost \<and>
   userId (owner demoPost) = userId alice \<and>
   computeStatus 5000 (expiresAt demoPost) = Expired \<and>
   fst (like demoValid 5000 alice demoId demoStore) = SelfVoteError Like \<and>
   fst (like demoValid 5000 alice demoId demoStore) \<noteq> ExpiredError \<and>
   fst (dislike demoValid 5000 alice demoId demoStore) = SelfVoteError Dislike \<and>
   fst (dislike demoValid 5000 alice demoId demoStore) \<noteq> ExpiredError"
  by (simp add: demo_defs like_def dislike_def findById_def computeStatus_def)

text \<open>
  Claim C1, amended. For a vote request on an existing post that resolves to Expired,
  the owner test comes first: the post's owner receives the self-vote response, and
  every other user receives the expired response.
\<close>

theorem owner_check_before_expiry:
  assumes "valid i" and "findById s i = Some p"
    and "computeStatus now (expiresAt p) = Expired"
  shows "fst (like valid now usr i s) =
           (if userId (owner p) = userId usr then SelfVoteError Like else ExpiredError) \<and>
         fst (dislike valid now usr i s) =
           (if userId (owner p) = userId usr then SelfVoteError Dislike else ExpiredError)"
  using assms by (simp add: like_def dislike_def refresh_eq Let_def)

theorem owner_check_before_expiry_witness:
  "demoValid demoId \<and> findById demoStore demoId = Some demoPost \<and>
   computeStatus 5000 (expiresAt demoPost) = Expired \<and>
   fst (like demoValid 5000 bob demoId demoStore) = ExpiredError \<and>
   fst (dislike demoValid 5000 bob demoId demoStore) = ExpiredError \<and>
   fst (like demoValid 5000 alice demoId demoStore) = SelfVoteError Like \<and>
   fst (dislike demoValid 5000 alice demoId demoStore) = SelfVoteError Dislike"
proof -
  have a: "demoValid demoId" by (simp add: demo_defs)
  have b: "findById demoStore demoId = Some demoPost" by (simp add: demo_defs findById_def)
  have c: "computeStatus 5000 (expiresAt demoPost) = Expired"
    by (simp add: demo_defs computeStatus_def)
  have d: "userId (owner demoPost) = userId alice" "userId (owner demoPost) \<noteq> userId bob"
    by (simp_all add: demo_defs)
  show ?thesis
    using a b c d
      owner_check_before_expiry [where valid = demoValid and i = demoId and s = demoStore
        and p = demoPost and now = 5000 and usr = bob]
      owner_check_before_expiry [where valid = demoValid and i = demoId and s = demoStore
        and p = demoPost and now = 5000 and usr = alice]
    by simp
qed

section \<open>Vote invariants\<close>

text \<open>
  Claim C3. Starting from a collection in which every post satisfies I1 to I3, after
  any sequence of like and dislike requests (whether each succeeds or is rejected) every
  post still has its likes counter equal to the number of users in \<open>likedBy\<close>, its
  dislikes counter equal to the number of users in \<open>dislikedBy\<close>, no user in both, and
  its owner in neither. The number of users in an array is the number of distinct ids it
  holds; by \<open>runVotes_storeDistinct\<close> and \<open>counts_are_lengths\<close> this is the array
  length for every post that started with duplicate-free arrays.
\<close>

theorem votes_preserve_invariants:
  "storeInv s \<Longrightarrow> storeInv (runVotes valid rs s)"
proof (induction rs arbitrary: s)
  case Nil
  then show ?case by simp
next
  case (Cons r rs)
  from Cons.prems have "storeInv (snd (applyVote valid r s))" by (rule applyVote_storeInv)
  then show ?case by (simp add: Cons.IH)
qed

theorem votes_preserve_invariants_witness:
  "storeInv demoStore \<and> storeInv (runVotes demoValid demoVotes demoStore) \<and>
   runVotes demoValid demoVotes demoStore =
     [(demoId, demoPost\<lparr>status := Expired, likesCount := 1, dislikesCount := 1,
         likedBy := [userId carol], dislikedBy := [userId bob]\<rparr>)]"
proof -
  have h: "storeInv demoStore"
    by (simp add: storeInv_def voteInv_def demo_defs)
  have r: "runVotes demoValid demoVotes demoStore =
     [(demoId, demoPost\<lparr>status := Expired, likesCount := 1, dislikesCount := 1,
         likedBy := [userId carol], dislikedBy := [userId bob]\<rparr>)]"
    by (simp add: demoVotes_def demo_defs applyVote_def like_def dislike_def findById_def
        refresh_eq save_def preSave_def computeStatus_def Let_def)
  show ?thesis using h r votes_preserve_invariants [OF h, of demoValid demoVotes] by simp
qed

section \<open>Switching a vote\<close>

text \<open>
  Claim C4. On a Live post, a user who is not the owner and who holds the opposite vote
  (and not the requested one) gets the success response: the user is removed from the
  opposite list, the opposite counter goes down by one but not below zero, the user is
  appended to the requested list and its counter goes up by one, so the user ends up in
  the requested list only. With the request kind Dislike this is the switch from like to
  dislike, with Like the symmetric one.
\<close>

theorem vote_switch:
  assumes "valid (rId r)" and "findById s (rId r) = Some p"
    and "computeStatus (rNow r) (expiresAt p) = Live"
    and "userId (owner p) \<noteq> userId (rUser r)"
    and "list_ex (\<lambda>x. x = userId (rUser r)) (votesOf (opposite (rKind r)) p)"
    and "\<not> list_ex (\<lambda>x. x = userId (rUser r)) (votesOf (rKind r) p)"
  shows "case findById (snd (applyVote valid r s)) (rId r) of
            None \<Rightarrow> False
          | Some p' \<Rightarrow>
              fst (applyVote valid r s) = Voted (rKind r) (likesCount p') (dislikesCount p') \<and>
              httpStatus (fst (applyVote valid r s)) = 200 \<and>
              votesOf (opposite (rKind r)) p' =
                filter (\<lambda>x. x \<noteq> userId (rUser r)) (votesOf (opposite (rKind r)) p) \<and>
              countOf (opposite (rKind r)) p' = max 0 (countOf (opposite (rKind r)) p - 1) \<and>
              votesOf (rKind r) p' = votesOf (rKind r) p @ [userId (rUser r)] \<and>
              countOf (rKind r) p' = countOf (rKind r) p + 1 \<and>
              list_ex (\<lambda>x. x = userId (rUser r)) (votesOf (rKind r) p') \<and>
              \<not> list_ex (\<lambda>x. x = userId (rUser r)) (votesOf (opposite (rKind r)) p')"
proof (cases "rKind r")
  case Like
  with assms show ?thesis
    by (simp add: applyVote_def like_def refresh_eq save_def preSave_def Let_def list_ex_iff)
next
  case Dislike
  with assms show ?thesis
    by (simp add: applyVote_def dislike_def refresh_eq save_def preSave_def Let_def list_ex_iff)
qed

theorem vote_switch_witness:
  "demoValid demoId \<and> findById demoStore demoId = Some demoPost \<and>
   computeStatus 2000 (expiresAt demoPost) = Live \<and>
   userId (owner demoPost) \<noteq> userId bob \<and>
   list_ex (\<lambda>x. x = userId bob) (votesOf (opposite Dislike) demoPost) \<and>
   \<not> list_ex (\<lambda>x. x = userId bob) (votesOf Dislike demoPost) \<and>
   applyVote demoValid \<lparr>rKind = Dislike, rNow = 2000, rUser = bob, rId = demoId\<rparr> demoStore
     = (Voted Dislike 0 1,
        [(demoId, demoPost\<lparr>likedBy := [], likesCount := 0,
                           dislikedBy := [userId bob], dislikesCount := 1\<rparr>)]) \<and>
   applyVote demoValid \<lparr>rKind = Like, rNow = 2500, rUser = bob, rId = demoId\<rparr>
     [(demoId, demoPost\<lparr>likedBy := [], likesCount := 0,
                        dislikedBy := [userId bob], dislikesCount := 1\<rparr>)]
     = (Voted Like 1 0, demoStore)"
proof -
  let ?q = "\<lparr>rKind = Like, rNow = 2500, rUser = bob, rId = demoId\<rparr>"
  let ?p2 = "demoPost\<lparr>likedBy := [], likesCount := 0,
                      dislikedBy := [userId bob], dislikesCount := 1\<rparr>"
  have a2: "demoValid (rId ?q)" by (simp add: demo_defs)
  have b2: "findById [(demoId, ?p2)] (rId ?q) = Some ?p2" by (simp add: findById_def)
  have c2: "computeStatus (rNow ?q) (expiresAt ?p2) = Live"
    by (simp add: demo_defs computeStatus_def)
  have d2: "userId (owner ?p2) \<noteq> userId (rUser ?q)" by (simp add: demo_defs)
  have e2: "list_ex (\<lambda>x. x = userId (rUser ?q)) (votesOf (opposite (rKind ?q)) ?p2)"
    by (simp add: demo_defs)
  have f2: "\<not> list_ex (\<lambda>x. x = userId (rUser ?q)) (votesOf (rKind ?q) ?p2)"
    by (simp add: demo_defs)
  have g2: "snd (applyVote demoValid ?q [(demoId, ?p2)]) = demoStore"
    by (simp add: demo_defs applyVote_def like_def findById_def refresh_eq save_def
        preSave_def computeStatus_def Let_def)
  let ?r = "\<lparr>rKind = Dislike, rNow = 2000, rUser = bob, rId = demoId\<rparr>"
  have a: "demoValid (rId ?r)" by (simp add: demo_defs)
  have b: "findById demoStore (rId ?r) = Some demoPost" by (simp add: demo_defs findById_def)
  have c: "computeStatus (rNow ?r) (expiresAt demoPost) = Live"
    by (simp add: demo_defs computeStatus_def)
  have d: "userId (owner demoPost) \<noteq> userId (rUser ?r)" by (simp add: demo_defs)
  have e: "list_ex (\<lambda>x. x = userId (rUser ?r)) (votesOf (opposite (rKind ?r)) demoPost)"
    by (simp add: demo_defs)
  have f: "\<not> list_ex (\<lambda>x. x = userId (rUser ?r)) (votesOf (rKind ?r) demoPost)"
    by (simp add: demo_defs)
  have g: "snd (applyVote demoValid ?r demoStore) =
        [(demoId, demoPost\<lparr>likedBy := [], likesCount := 0,
                           dislikedBy := [userId bob], dislikesCount := 1\<rparr>)]"
    by (simp add: demo_defs applyVote_def dislike_def findById_def refresh_eq save_def
        preSave_def computeStatus_def Let_def)
  show ?thesis
    using a b c d e f g a2 b2 c2 d2 e2 f2 g2
      vote_switch [where valid = demoValid and r = ?r and s = demoStore and p = demoPost]
      vote_switch [where valid = demoValid and r = ?q and s = "[(demoId, ?p2)]" and p = ?p2]
    by (simp add: prod_eq_iff findById_def demoPost_def demoStore_def)
qed

section \<open>Repeating a vote\<close>

text \<open>
  Claim C5. On a Live post, a user who is not the owner and who already holds the
  requested vote kind gets the duplicate-vote response (status 409, a response of its
  own), and the stored post keeps its two lists and its two counters unchanged.
\<close>

theorem duplicate_vote_rejected:
  assumes "valid (rId r)" and "findById s (rId r) = Some p"
    and "computeStatus (rNow r) (expiresAt p) = Live"
    and "userId (owner p) \<noteq> userId (rUser r)"
    and "list_ex (\<lambda>x. x = userId (rUser r)) (votesOf (rKind r) p)"
  shows "fst (applyVote valid r s) = DuplicateVoteError (rKind r) \<and>
         httpStatus (fst (applyVote valid r s)) = 409 \<and>
         (case findById (snd (applyVote valid r s)) (rId r) of
            None \<Rightarrow> False
          | Some p' \<Rightarrow> likedBy p' = likedBy p \<and> dislikedBy p' = dislikedBy p \<and>
                       likesCount p' = likesCount p \<and> dislikesCount p' = dislikesCount p)"
proof (cases "rKind r")
  case Like
  with assms show ?thesis
    by (simp add: applyVote_def like_def refresh_eq Let_def)
next
  case Dislike
  with assms show ?thesis
    by (simp add: applyVote_def dislike_def refresh_eq Let_def)
qed

theorem duplicate_vote_rejected_witness:
  "demoValid demoId \<and> findById demoStore demoId = Some demoPost \<and>
   computeStatus 2000 (expiresAt demoPost) = Live \<and>
   userId (owner demoPost) \<noteq> userId bob \<and>
   list_ex (\<lambda>x. x = userId bob) (votesOf Like demoPost) \<and>
   applyVote demoValid \<lparr>rKind = Like, rNow = 2000, rUser = bob, rId = demoId\<rparr> demoStore
     = (DuplicateVoteError Like, demoStore)"
proof -
  let ?r = "\<lparr>rKind = Like, rNow = 2000, rUser = bob, rId = demoId\<rparr>"
  have a: "demoValid (rId ?r)" by (simp add: demo_defs)
  have b: "findById demoStore (rId ?r) = Some demoPost" by (simp add: demo_defs findById_def)
  have c: "computeStatus (rNow ?r) (expiresAt demoPost) = Live"
    by (simp add: demo_defs computeStatus_def)
  have d: "userId (owner demoPost) \<noteq> userId (rUser ?r)" by (simp add: demo_defs)
  have e: "list_ex (\<lambda>x. x = userId (rUser ?r)) (votesOf (rKind ?r) demoPost)"
    by (simp add: demo_defs)
  have f: "snd (applyVote demoValid ?r demoStore) = demoStore"
    by (simp add: demo_defs applyVote_def like_def findById_def refresh_eq computeStatus_def)
  show ?thesis
    using a b c d e f
      duplicate_vote_rejected [where valid = demoValid and r = ?r and s = demoStore
        and p = demoPost]
    by (simp add: prod_eq_iff)
qed

section \<open>Appending a comment\<close>

text \<open>
  Claim C8. On a Live post, for any authenticated user (the owner included: there is no
  owner test), a comment whose trimmed text has between 1 and 500 characters is accepted
  with status 201: the stored comment list is the old one with exactly one comment
  appended, so its length grows by one and the earlier comments are untouched. A trimmed
  text of length 0 or above 500 gets the validation response and the store is unchanged.
\<close>

theorem comment_appended:
  assumes "valid i" and "findById s i = Some p"
    and "computeStatus now (expiresAt p) = Live"
  shows "if 1 \<le> length (trim (toStr (jsOr textRaw (JStr [])))) \<and>
            length (trim (toStr (jsOr textRaw (JStr [])))) \<le> 500
         then (case findById (snd (addComment valid now usr i textRaw s)) i of
                 None \<Rightarrow> False
               | Some p' \<Rightarrow>
                   comments p' =
                     comments p @ [\<lparr>cUser = \<lparr>userId = userId usr, name = name usr\<rparr>,
                                    cText = trim (toStr (jsOr textRaw (JStr []))),
                                    cCreatedAt = now\<rparr>] \<and>
                   length (comments p') = length (comments p) + 1 \<and>
                   take (length (comments p)) (comments p') = comments p \<and>
                   fst (addComment valid now usr i textRaw s) =
                     CommentAdded (length (comments p) + 1) (last (comments p')) \<and>
                   httpStatus (fst (addComment valid now usr i textRaw s)) = 201)
         else addComment valid now usr i textRaw s = (CommentValidationError, s)"
  using assms
  by (auto simp: addComment_def refresh_eq save_def preSave_def Let_def Suc_le_eq)

theorem comment_appended_witness:
  "demoValid demoId \<and> findById demoStore demoId = Some demoPost \<and>
   computeStatus 2000 (expiresAt demoPost) = Live \<and>
   userId (owner demoPost) = userId alice \<and>
   addComment demoValid 2000 alice demoId (JStr ''  my own post '') demoStore =
     (CommentAdded 1 demoComment, [(demoId, demoPost\<lparr>comments := [demoComment]\<rparr>)]) \<and>
   addComment demoValid 2000 alice demoId (JStr ''   '') demoStore =
     (CommentValidationError, demoStore)"
proof -
  have a: "demoValid demoId" by (simp add: demo_defs)
  have b: "findById demoStore demoId = Some demoPost" by (simp add: demo_defs findById_def)
  have c: "computeStatus 2000 (expiresAt demoPost) = Live"
    by (simp add: demo_defs computeStatus_def)
  have t1: "trim (toStr (jsOr (JStr ''  my own post '') (JStr []))) = ''my own post''"
    by (simp add: trim_def jsOr_def isWhiteSpace_def)
  have t2: "trim (toStr (jsOr (JStr ''   '') (JStr []))) = []"
    by (simp add: trim_def jsOr_def isWhiteSpace_def)
  have g: "snd (addComment demoValid 2000 alice demoId (JStr ''  my own post '') demoStore) =
      [(demoId, demoPost\<lparr>comments := [demoComment]\<rparr>)]"
    using t1
    by (simp add: demo_defs demoComment_def addComment_def findById_def refresh_eq save_def
        preSave_def computeStatus_def Let_def)
  show ?thesis
    using a b c g t1 t2
      comment_appended [where valid = demoValid and i = demoId and s = demoStore
        and p = demoPost and now = 2000 and usr = alice and textRaw = "JStr ''  my own post ''"]
      comment_appended [where valid = demoValid and i = demoId and s = demoStore
        and p = demoPost and now = 2000 and usr = alice and textRaw = "JStr ''   ''"]
    by (simp add: prod_eq_iff findById_def demoPost_def demoComment_def alice_def)
qed

section \<open>Most active post of a topic\<close>

text \<open>
  Claim C7. For a topic of the fixed list, the most-active query looks at every post
  tagged with the topic, whatever its status, and answers with one of them that ranks at
  least as high as each of them in the order likes, then dislikes, then creation time;
  it answers not-found exactly when no post is tagged with the topic.
\<close>

theorem most_active_maximal:
  assumes "List.member TOPICS topic"
  shows "case mostActive topic s of
           PostFound r \<Rightarrow>
             List.member (map snd s) r \<and> List.member (topics r) topic \<and>
             list_all (\<lambda>p. \<not> List.member (topics p) topic \<or> activityLe p r) (map snd s)
         | NoPostsFound \<Rightarrow> list_all (\<lambda>p. \<not> List.member (topics p) topic) (map snd s)
         | _ \<Rightarrow> False"
proof (cases "findOneSortedDesc (\<lambda>p. List.member (topics p) topic) activity s")
  case None
  then have "filter (\<lambda>p. List.member (topics p) topic) (map snd s) = []"
    by (rule findOne_None)
  then have "list_all (\<lambda>p. \<not> List.member (topics p) topic) (map snd s)"
    by (simp add: filter_empty_conv list_all_iff)
  with assms None show ?thesis by (simp add: mostActive_def)
next
  case (Some r)
  from findOne_Some [OF Some]
  have "List.member (map snd s) r \<and> List.member (topics r) topic \<and>
        list_all (\<lambda>p. \<not> List.member (topics p) topic \<or> activityLe p r) (map snd s)"
    by (auto simp: list_all_iff activityLe_iff)
  with assms Some show ?thesis by (simp add: mostActive_def)
qed

theorem most_active_maximal_witness:
  "List.member TOPICS ''Tech'' \<and>
   mostActive ''Tech'' rankedStore = PostFound (rankedPost 5 2 200 Expired) \<and>
   activityLe (rankedPost 5 1 100 Live) (rankedPost 5 2 200 Expired) \<and>
   activityLe (rankedPost 3 0 300 Live) (rankedPost 5 2 200 Expired) \<and>
   mostActive ''Sport'' rankedStore = NoPostsFound"
proof -
  have a: "List.member TOPICS ''Tech''" "List.member TOPICS ''Sport''"
    by (simp_all add: TOPICS_def)
  have k: "activity (rankedPost 5 1 100 Live) = (5, 1, 100)"
    "activity (rankedPost 5 2 200 Expired) = (5, 2, 200)"
    "activity (rankedPost 3 0 300 Live) = (3, 0, 300)"
    by (simp_all add: activity_def rankedPost_def)
  have t: "topics (rankedPost l d c st) = [''Tech'']" for l d c st
    by (simp add: rankedPost_def demoPost_def)
  have m: "mostActive ''Tech'' rankedStore = PostFound (rankedPost 5 2 200 Expired)"
    using a k t by (simp add: mostActive_def findOneSortedDesc_def rankedStore_def less_eq_prod_def)
  have n: "mostActive ''Sport'' rankedStore = NoPostsFound"
    using a t by (simp add: mostActive_def findOneSortedDesc_def rankedStore_def)
  show ?thesis
    using a m n most_active_maximal [where topic = "''Tech''" and s = rankedStore]
      most_active_maximal [where topic = "''Sport''" and s = rankedStore]
    by (simp add: rankedStore_def t)
qed

section \<open>Paging of the expired history\<close>

text \<open>
  Claim C2, as stated, fails: the limit has an upper bound only. The query string
  \<^verbatim>\<open>limit=-5\<close> gives the store the limit \<open>-5\<close>, not \<open>0\<close>.
\<close>

theorem negative_limit_counterexample:
  "parseInt10 (toStr (jsOr (JStr ''-5'') (JStr ''20''))) = Num (- 5) \<and>
   expiredLimit (JStr ''-5'') = Num (- 5) \<and>
   expiredLimit (JStr ''-5'') \<noteq> Num (max 0 (min (- 5) 50)) \<and>
   expiredHistory ''Tech'' (JStr ''-5'') (JStr ''0'') =
     ExpiredPosts \<lparr>qTopic = ''Tech'', qStatus = Expired, qSkip = Num 0, qLimit = Num (- 5)\<rparr>"
  by (simp add: expiredHistory_def expiredLimit_def expiredSkip_def parseInt10_def jsOr_def
      isWhiteSpace_def isDigit_def digitsVal_def TOPICS_def Let_def no_overflow_below
      doubleOverflow_pos)

text \<open>
  Claim C2, amended. When the limit and skip parameters parse to the integers \<open>limit\<close>
  and \<open>skip\<close>, the query handed to the store has limit \<open>min limit 50\<close> (capped at 50,
  no lower bound, so a negative limit is passed on as it is; for \<open>limit \<ge> 0\<close> this is
  the clamp into 0..50) and skip \<open>max skip 0\<close>.
\<close>

theorem expired_paging:
  assumes "List.member TOPICS topic"
    and "parseInt10 (toStr (jsOr qlimit (JStr ''20''))) = Num limit"
    and "parseInt10 (toStr (jsOr qskip (JStr ''0''))) = Num skip"
  shows "expiredLimit qlimit = Num (min limit 50) \<and>
         expiredSkip qskip = Num (max skip 0) \<and>
         expiredLimit qlimit = (if 0 \<le> limit then Num (max 0 (min limit 50)) else Num limit) \<and>
         expiredHistory topic qlimit qskip =
           ExpiredPosts \<lparr>qTopic = topic, qStatus = Expired,
                          qSkip = Num (max skip 0), qLimit = Num (min limit 50)\<rparr>"
  using assms by (simp add: expiredHistory_def expiredLimit_def expiredSkip_def)

theorem expired_paging_witness:
  "List.member TOPICS ''Health'' \<and>
   parseInt10 (toStr (jsOr (JStr ''75'') (JStr ''20''))) = Num 75 \<and>
   parseInt10 (toStr (jsOr (JStr ''-3'') (JStr ''0''))) = Num (- 3) \<and>
   parseInt10 (toStr (jsOr JUndefined (JStr ''20''))) = Num 20 \<and>
   parseInt10 (toStr (jsOr JUndefined (JStr ''0''))) = Num 0 \<and>
   expiredHistory ''Health'' (JStr ''75'') (JStr ''-3'') =
     ExpiredPosts \<lparr>qTopic = ''Health'', qStatus = Expired, qSkip = Num 0, qLimit = Num 50\<rparr> \<and>
   expiredHistory ''Health'' JUndefined JUndefined =
     ExpiredPosts \<lparr>qTopic = ''Health'', qStatus = Expired, qSkip = Num 0, qLimit = Num 20\<rparr>"
proof -
  have a: "List.member TOPICS ''Health''" by (simp add: TOPICS_def)
  have b: "parseInt10 (toStr (jsOr (JStr ''75'') (JStr ''20''))) = Num 75"
    "parseInt10 (toStr (jsOr (JStr ''-3'') (JStr ''0''))) = Num (- 3)"
    "parseInt10 (toStr (jsOr JUndefined (JStr ''20''))) = Num 20"
    "parseInt10 (toStr (jsOr JUndefined (JStr ''0''))) = Num 0"
    by (simp_all add: parseInt10_def jsOr_def isWhiteSpace_def isDigit_def digitsVal_def
        Let_def no_overflow_below doubleOverflow_pos)
  show ?thesis
    using a b
      expired_paging [where topic = "''Health''" and qlimit = "JStr ''75''" and limit = 75
        and qskip = "JStr ''-3''" and skip = "- 3"]
      expired_paging [where topic = "''Health''" and qlimit = JUndefined and limit = 20
        and qskip = JUndefined and skip = 0]
    by simp
qed

section \<open>Default expiry of a new post\<close>

text \<open>
  Claim C9. When a creation request carries no (truthy) \<^verbatim>\<open>expiresAt\<close> and its
  \<^verbatim>\<open>expiresInMinutes\<close> does not parse to a finite number (no leading digits, so
  \<^verbatim>\<open>NaN\<close>, or digits beyond the doubles, so \<^verbatim>\<open>Infinity\<close>: the cases in which
  \<^verbatim>\<open>Number.isFinite\<close> fails), the minutes fall back to 60 instead of the request
  being rejected: with a valid title, body and topic list the post is created, stored
  under its new id, Live, and expires 60 minutes (3600000 ms) after the current time.
\<close>

theorem default_expiry_sixty_minutes:
  assumes "\<not> truthy (bExpiresAt b)"
    and "\<not> jsIsFinite (parseInt10 (toStr (bExpiresInMinutes b)))"
    and "6 \<le> length (trim (toStr (jsOr (bTitle b) (JStr [])))) \<and>
         length (trim (toStr (jsOr (bTitle b) (JStr [])))) \<le> 120"
    and "1 \<le> length (trim (toStr (jsOr (bBody b) (JStr [])))) \<and>
         length (trim (toStr (jsOr (bBody b) (JStr [])))) \<le> 2000"
    and "isValidTopicList (bTopics b)"
  shows "toInt (bExpiresInMinutes b) 60 = 60 \<and>
         (case createPost parseDate newId now usr b s of
            (PostCreated p, s') \<Rightarrow>
              expiresAt p = now + 60 * 60 * 1000 \<and> status p = Live \<and>
              findById s' newId = Some p
          | _ \<Rightarrow> False)"
proof -
  from assms(2) have m: "toInt (bExpiresInMinutes b) 60 = 60"
    by (cases "parseInt10 (toStr (bExpiresInMinutes b))") (simp_all add: toInt_def)
  with assms(1,3,4,5) show ?thesis
    by (simp add: createPost_def save_def preSave_def computeStatus_def Let_def Suc_le_eq)
qed

theorem default_expiry_sixty_minutes_witness:
  "\<not> truthy (bExpiresAt demoBody) \<and>
   parseInt10 (toStr (bExpiresInMinutes demoBody)) = NaN \<and>
   parseInt10 (toStr (bExpiresInMinutes (demoBody\<lparr>bExpiresInMinutes := JStr hugeDigits\<rparr>)))
     = PosInf \<and>
   isValidTopicList (bTopics demoBody) \<and>
   createPost demoParseDate ''5f0000000000000000000002'' 1000 carol demoBody demoStore =
     (PostCreated
        \<lparr>title = ''Weekend plans'', topics = [''Sport'', ''Health''],
         body = ''Anyone up for a hike?'', createdAt = 1000, expiresAt = 3601000,
         status = Live, owner = carol, likesCount = 0, dislikesCount = 0,
         likedBy = [], dislikedBy = [], comments = []\<rparr>,
      [(demoId, demoPost),
       (''5f0000000000000000000002'',
        \<lparr>title = ''Weekend plans'', topics = [''Sport'', ''Health''],
         body = ''Anyone up for a hike?'', createdAt = 1000, expiresAt = 3601000,
         status = Live, owner = carol, likesCount = 0, dislikesCount = 0,
         likedBy = [], dislikedBy = [], comments = []\<rparr>)]) \<and>
   createPost demoParseDate ''5f0000000000000000000002'' 1000 carol
       (demoBody\<lparr>bExpiresInMinutes := JStr hugeDigits\<rparr>) demoStore =
     createPost demoParseDate ''5f0000000000000000000002'' 1000 carol demoBody demoStore"
proof -
  let ?huge = "demoBody\<lparr>bExpiresInMinutes := JStr hugeDigits\<rparr>"
  let ?new = "\<lparr>title = ''Weekend plans'', topics = [''Sport'', ''Health''],
         body = ''Anyone up for a hike?'', createdAt = 1000, expiresAt = 3601000,
         status = Live, owner = carol, likesCount = 0, dislikesCount = 0,
         likedBy = [], dislikedBy = [], comments = []\<rparr>"
  have a: "\<not> truthy (bExpiresAt demoBody)" "\<not> truthy (bExpiresAt ?huge)"
    by (simp_all add: demoBody_def)
  have b: "parseInt10 (toStr (bExpiresInMinutes demoBody)) = NaN"
    by (simp add: demoBody_def parseInt10_def isWhiteSpace_def isDigit_def Let_def)
  have b': "parseInt10 (toStr (bExpiresInMinutes ?huge)) = PosInf"
    by (simp add: parseInt10_hugeDigits)
  have c: "trim (toStr (jsOr (bTitle demoBody) (JStr []))) = ''Weekend plans''"
    "trim (toStr (jsOr (bTitle ?huge) (JStr []))) = ''Weekend plans''"
    by (simp_all add: demoBody_def trim_def jsOr_def isWhiteSpace_def)
  have d: "trim (toStr (jsOr (bBody demoBody) (JStr []))) = ''Anyone up for a hike?''"
    "trim (toStr (jsOr (bBody ?huge) (JStr []))) = ''Anyone up for a hike?''"
    by (simp_all add: demoBody_def trim_def jsOr_def isWhiteSpace_def)
  have e: "isValidTopicList (bTopics demoBody)" "isValidTopicList (bTopics ?huge)"
    by (simp_all add: demoBody_def isValidTopicList_def TOPICS_def)
  have tp: "bTopics demoBody = Some [''Sport'', ''Health'']"
    "bTopics ?huge = Some [''Sport'', ''Health'']"
    by (simp_all add: demoBody_def)
  have f: "createPost demoParseDate ''5f0000000000000000000002'' 1000 carol demoBody demoStore =
     (PostCreated ?new, [(demoId, demoPost), (''5f0000000000000000000002'', ?new)])"
    using a b c d e tp
    by (simp add: createPost_def toInt_def save_def preSave_def computeStatus_def Let_def
        demoStore_def demoId_def carol_def)
  have g: "createPost demoParseDate ''5f0000000000000000000002'' 1000 carol ?huge demoStore =
     (PostCreated ?new, [(demoId, demoPost), (''5f0000000000000000000002'', ?new)])"
    using a b' c d e tp
    by (simp add: createPost_def toInt_def save_def preSave_def computeStatus_def Let_def
        demoStore_def demoId_def carol_def)
  show ?thesis
    using a b b' c d e f g
      default_expiry_sixty_minutes [where b = demoBody and parseDate = demoParseDate
        and newId = "''5f0000000000000000000002''" and now = 1000 and usr = carol
        and s = demoStore]
      default_expiry_sixty_minutes [where b = ?huge and parseDate = demoParseDate
        and newId = "''5f0000000000000000000002''" and now = 1000 and usr = carol
        and s = demoStore]
    by simp
qed

end
